theory Spec2Isabelle
  imports Complex_Main "HOL-Library.Char_ord" "HOL-Library.List_Lexorder"
begin

section \<open>Values and strings of the JavaScript side\<close>

text \<open>
  A request body is parsed JSON. The values the model follows through the handlers are the
  scalar ones: \<open>null\<close> (also standing for an absent field, \<open>undefined\<close>), numbers that are
  integers of magnitude below \<open>2 ^ 53\<close> (below \<open>2 ^ 31\<close> where the number is bound to a TEXT
  column), and strings. Other numbers, arrays and objects are outside this value type.
\<close>

datatype val = VNull | VNum int | VStr string

text \<open>JavaScript truthiness, as used by \<open>!x\<close>, \<open>x || y\<close> and \<open>x && y\<close>.\<close>

fun truthy :: "val \<Rightarrow> bool" where
  "truthy VNull = False"
| "truthy (VNum n) = (n \<noteq> 0)"
| "truthy (VStr s) = (s \<noteq> [])"

text \<open>
  A text field that may be missing is a \<open>string option\<close>; \<open>x || ""\<close> on such a field gives
  the empty string for \<open>null\<close>, \<open>undefined\<close> and \<open>""\<close> alike.
\<close>

fun or_empty :: "string option \<Rightarrow> string" where
  "or_empty None = []"
| "or_empty (Some s) = s"

definition truthy_str :: "string option \<Rightarrow> bool" where
  "truthy_str x = (or_empty x \<noteq> [])"

text \<open>
  A string is the list of its characters, each a code point below 256 (Latin-1); text
  with other code points is outside the model. On these, \<open>toLowerCase\<close> changes the
  letters \<open>A\<close> to \<open>Z\<close> and the capital letters U+00C0 to U+00DE (U+00D7, the
  multiplication sign, is no letter), and \<open>trim\<close> strips tab, line feed, vertical tab,
  form feed, carriage return, space and the no-break space U+00A0.
\<close>

definition lower_char :: "char \<Rightarrow> char" where
  "lower_char c =
     (case map_of (zip ''ABCDEFGHIJKLMNOPQRSTUVWXYZ'' ''abcdefghijklmnopqrstuvwxyz'') c of
        Some d \<Rightarrow> d
      | None \<Rightarrow>
          (if 192 \<le> (of_char c :: nat) \<and> (of_char c :: nat) \<le> 222 \<and> (of_char c :: nat) \<noteq> 215
           then char_of ((of_char c :: nat) + 32) else c))"

definition toLowerCase :: "string \<Rightarrow> string" where
  "toLowerCase s = map lower_char s"

definition is_space :: "char \<Rightarrow> bool" where
  "is_space c = ((of_char c :: nat) \<in> {9, 10, 11, 12, 13, 32, 160})"

definition trim :: "string \<Rightarrow> string" where
  "trim s = rev (dropWhile is_space (rev (dropWhile is_space s)))"

text \<open>\<open>s.includes(q)\<close>: \<open>q\<close> occurs in \<open>s\<close> as a contiguous substring.\<close>

fun includes_str :: "string \<Rightarrow> string \<Rightarrow> bool" where
  "includes_str [] q = (q = [])"
| "includes_str (c # s) q = (take (length q) (c # s) = q \<or> includes_str s q)"

text \<open>Decimal text of an integer, as \<open>String(n)\<close> gives it.\<close>

definition digit_char :: "nat \<Rightarrow> char" where
  "digit_char d = ''0123456789'' ! (d mod 10)"

fun digits :: "nat \<Rightarrow> string" where
  "digits n = (if n < 10 then [digit_char n] else digits (n div 10) @ [digit_char (n mod 10)])"

declare digits.simps [simp del]

definition String_of_int :: "int \<Rightarrow> string" where
  "String_of_int n = (if n < 0 then CHR ''-'' # digits (nat (- n)) else digits (nat n))"

fun String_of :: "val \<Rightarrow> string" where
  "String_of VNull = ''null''"
| "String_of (VNum n) = String_of_int n"
| "String_of (VStr s) = s"

text \<open>
  \<open>JSON.stringify\<close> on a scalar. A string is quoted; the quote, the backslash and the
  control characters below 0x20 are escaped.
\<close>

definition hex_char :: "nat \<Rightarrow> char" where
  "hex_char d = ''0123456789abcdef'' ! (d mod 16)"

definition json_escape :: "char \<Rightarrow> string" where
  "json_escape c =
     (let n = (of_char c :: nat) in
      if n = 34 then [CHR 0x5C, CHR 0x22]
      else if n = 92 then [CHR 0x5C, CHR 0x5C]
      else if n = 8 then [CHR 0x5C, CHR ''b'']
      else if n = 9 then [CHR 0x5C, CHR ''t'']
      else if n = 10 then [CHR 0x5C, CHR ''n'']
      else if n = 12 then [CHR 0x5C, CHR ''f'']
      else if n = 13 then [CHR 0x5C, CHR ''r'']
      else if n < 32 then [CHR 0x5C, CHR ''u'', CHR ''0'', CHR ''0'', hex_char (n div 16), hex_char n]
      else [c])"

fun JSON_stringify :: "val \<Rightarrow> string" where
  "JSON_stringify VNull = ''null''"
| "JSON_stringify (VNum n) = String_of_int n"
| "JSON_stringify (VStr s) = [CHR 0x22] @ concat (map json_escape s) @ [CHR 0x22]"


text \<open>Reading a decimal integer: an optional sign, then one digit or more.\<close>

definition is_digit :: "char \<Rightarrow> bool" where
  "is_digit c = (c \<in> set ''0123456789'')"

definition digit_val :: "char \<Rightarrow> nat" where
  "digit_val c = (of_char c :: nat) - 48"

definition nat_of_string :: "string \<Rightarrow> nat option" where
  "nat_of_string s =
     (if s \<noteq> [] \<and> list_all is_digit s
      then Some (foldl (\<lambda>a c. 10 * a + digit_val c) 0 s) else None)"

text \<open>
  SQLite's reading of a text as a number: white space around it, a sign, digits with an
  optional fraction, an optional exponent. \<open>sql_number\<close> gives the number as a mantissa
  \<open>m\<close> and a decimal exponent \<open>e\<close>, for \<open>m * 10 ^ e\<close>; \<open>sql_integer\<close> gives its value when
  that is an integer of 64 bits.
\<close>

definition sql_space :: "char \<Rightarrow> bool" where
  "sql_space c = ((of_char c :: nat) \<in> {9, 10, 11, 12, 13, 32})"

definition digits_val :: "string \<Rightarrow> nat" where
  "digits_val s = foldl (\<lambda>a c. 10 * a + digit_val c) 0 s"

definition sql_exponent :: "string \<Rightarrow> int option" where
  "sql_exponent s =
     (if s = [] then Some 0
      else if hd s = CHR ''e'' \<or> hd s = CHR ''E'' then
        (let r = tl s;
             neg = (r \<noteq> [] \<and> hd r = CHR ''-'');
             r' = (if r \<noteq> [] \<and> (hd r = CHR ''-'' \<or> hd r = CHR ''+'') then tl r else r)
         in if r' \<noteq> [] \<and> list_all is_digit r'
            then Some (if neg then - int (digits_val r') else int (digits_val r')) else None)
      else None)"

definition sql_number :: "string \<Rightarrow> (int \<times> int) option" where
  "sql_number s =
     (let t = rev (dropWhile sql_space (rev (dropWhile sql_space s)));
          neg = (t \<noteq> [] \<and> hd t = CHR ''-'');
          t1 = (if t \<noteq> [] \<and> (hd t = CHR ''-'' \<or> hd t = CHR ''+'') then tl t else t);
          ip = takeWhile is_digit t1;
          t2 = dropWhile is_digit t1;
          fp = (if t2 \<noteq> [] \<and> hd t2 = CHR ''.'' then takeWhile is_digit (tl t2) else []);
          t3 = (if t2 \<noteq> [] \<and> hd t2 = CHR ''.'' then dropWhile is_digit (tl t2) else t2)
      in if ip @ fp = [] then None
         else case sql_exponent t3 of
           None \<Rightarrow> None
         | Some e \<Rightarrow>
             Some ((if neg then - int (digits_val (ip @ fp)) else int (digits_val (ip @ fp))),
                   e - int (length fp)))"

definition sql_integer :: "string \<Rightarrow> int option" where
  "sql_integer s =
     (case sql_number s of
        None \<Rightarrow> None
      | Some (m, e) \<Rightarrow>
          (let v = (if 0 \<le> e then Some (m * 10 ^ nat e)
                    else if m mod 10 ^ nat (- e) = 0 then Some (m div 10 ^ nat (- e)) else None)
           in case v of
                None \<Rightarrow> None
              | Some n \<Rightarrow> (if - 9223372036854775808 \<le> n \<and> n < 9223372036854775808 then Some n else None)))"

section \<open>The tables\<close>

text \<open>
  A row of \<open>leads\<close>. The TEXT columns hold a string or NULL; \<open>score\<close> and \<open>assigned_to\<close>
  (INTEGER) and \<open>next_follow_up\<close> (DATE) hold whatever scalar was bound, after the column's
  numeric affinity. \<open>created_at\<close> is the text \<open>YYYY-MM-DD HH:MM:SS\<close> that
  \<open>CURRENT_TIMESTAMP\<close> gave at the insert. The columns a request can send are shared with
  the request's own record, \<open>lead_form\<close>, which carries \<open>notes\<close> as the value sent.
\<close>

record lead_fields =
  name :: "string option"
  phone :: "string option"
  email :: "string option"
  type :: "string option"
  source :: "string option"
  score :: val
  status :: "string option"
  assigned_to :: val
  next_follow_up :: val
  remarks :: "string option"

record lead_form = lead_fields +
  notes_sent :: val

record lead = lead_fields +
  notes_text :: "string option"
  lead_id :: int
  created_at :: string

text \<open>
  The claims of a signed token, which are also \<open>req.user\<close>. \<open>jwt.sign\<close> and
  \<open>jwt.verify\<close> are the library's: a token is the claims it was signed over, and a token
  the server did not sign is no token. Expiry is not modelled.
\<close>

record claims =
  uid :: int
  uname :: "string option"
  uemail :: string
  role :: string
  theme :: "string option"

datatype token = Jwt claims

datatype authorization = NoHeader | Bearer "token option"

text \<open>A row of \<open>users\<close>; the password column holds a bcrypt hash of the password.\<close>

datatype pwhash = Bcrypt string

record account =
  acc_id :: int
  acc_name :: string
  acc_email :: string
  acc_password :: pwhash
  acc_role :: string
  acc_theme :: string

text \<open>
  A row of \<open>audit_logs\<close>. The \<open>details\<close> column is the text \<open>JSON.stringify\<close> makes of
  the payload; the row keeps the payload itself. Rows are in insertion order, which is
  the order of their ids.
\<close>

datatype details =
    DNull
  | DBody "(string \<times> val) list"
  | DForm lead_form
  | DMerge val "int list"
  | DCount nat
  | DUser claims

record audit_log =
  entity :: string
  entity_id :: string
  action :: string
  details :: details
  performed_by :: string

record db =
  users :: "account list"
  users_seq :: int
  leads :: "lead list"
  leads_seq :: int
  audit_logs :: "audit_log list"

text \<open>
  Column affinity at a bind: TEXT turns a number into its text; INTEGER and NUMERIC turn a
  text that reads as an integer into the integer and keep a text that reads as no number.
  A text that reads as a number which is no integer of 64 bits is a REAL in SQLite; the
  value type has no reals, such a bind is outside the model, and the text is kept.
\<close>

fun as_text :: "val \<Rightarrow> string option" where
  "as_text VNull = None"
| "as_text (VNum n) = Some (String_of_int n)"
| "as_text (VStr s) = Some s"

fun numeric_affinity :: "val \<Rightarrow> val" where
  "numeric_affinity (VStr s) = (case sql_integer s of Some n \<Rightarrow> VNum n | None \<Rightarrow> VStr s)"
| "numeric_affinity v = v"

section \<open>Responses, middleware and the audit log\<close>

text \<open>
  A handler answers with a status code and message (400 is the spec's InvalidArgument, 401
  Unauthenticated, 403 Forbidden, 404 NotFound, 500 Internal) or with its JSON reply, and
  returns the database it leaves. Storage failures other than the UNIQUE constraint on
  \<open>users.email\<close> are not modelled: every other statement succeeds.
\<close>

datatype http_error = HttpError nat string

datatype reply =
    Success
  | DataId int
  | DataRows "lead list"
  | DataRow lead
  | Imported nat
  | TokenUser token claims

type_synonym result = "http_error + reply"

definition authMiddleware :: "bool \<Rightarrow> db \<Rightarrow> authorization \<Rightarrow> http_error + claims" where
  "authMiddleware production d auth =
     (case auth of
        NoHeader \<Rightarrow>
          (if \<not> production then
             (case find (\<lambda>a. acc_email a = ''admin@crm.com'') (users d) of
                Some row \<Rightarrow> Inr \<lparr>uid = acc_id row, uname = Some (acc_name row),
                                 uemail = acc_email row, role = acc_role row, theme = None\<rparr>
              | None \<Rightarrow> Inl (HttpError 401 ''Missing token (dev-mode failed to auto-auth)''))
           else Inl (HttpError 401 ''Missing token''))
      | Bearer None \<Rightarrow> Inl (HttpError 401 ''Invalid token'')
      | Bearer (Some (Jwt payload)) \<Rightarrow> Inr payload)"

definition requireRole :: "string list \<Rightarrow> claims \<Rightarrow> bool" where
  "requireRole roles u = (role u \<in> set roles)"

definition forbidden :: http_error where
  "forbidden = HttpError 403 ''Forbidden''"

text \<open>\<open>audit(entity, entityId, action, details, performedBy)\<close> inserts one row.\<close>

definition audit :: "string \<Rightarrow> val \<Rightarrow> string \<Rightarrow> details \<Rightarrow> string \<Rightarrow> db \<Rightarrow> db" where
  "audit ent entId act det who d =
     d\<lparr>audit_logs := audit_logs d @
        [\<lparr>entity = ent, entity_id = (if truthy entId then String_of entId else []),
          action = act, details = det, performed_by = who\<rparr>]\<rparr>"

text \<open>\<open>(req.user && req.user.email) || 'system'\<close>\<close>

definition performer :: "claims \<Rightarrow> string" where
  "performer u = (if uemail u \<noteq> [] then uemail u else ''system'')"

section \<open>Lead routes\<close>

text \<open>\<open>POST /api/leads/merge\<close>, admin and manager only. \<open>mergeIds\<close> is \<open>None\<close> when the
  body's value is not an array; the ids of an array are integers.\<close>

definition POST_leads_merge :: "claims \<Rightarrow> val \<Rightarrow> int list option \<Rightarrow> db \<Rightarrow> result \<times> db" where
  "POST_leads_merge u keepId mergeIds d =
     (if \<not> requireRole [''admin'', ''manager''] u then (Inl forbidden, d)
      else if \<not> truthy keepId \<or> mergeIds = None
        then (Inl (HttpError 400 ''keepId and mergeIds required''), d)
      else
        (let ids = the mergeIds;
             d' = d\<lparr>leads := filter (\<lambda>l. lead_id l \<notin> set ids) (leads d)\<rparr>
         in (Inr Success, audit ''lead'' keepId ''merge'' (DMerge keepId ids) (performer u) d')))"


text \<open>
  A route parameter \<open>:id\<close> is the text of the URL. \<open>WHERE id = ?\<close> compares the INTEGER
  column with it under numeric affinity.
\<close>

definition sql_id_eq :: "int \<Rightarrow> string \<Rightarrow> bool" where
  "sql_id_eq i rid = (numeric_affinity (VStr rid) = VNum i)"

text \<open>\<open>ORDER BY created_at DESC\<close>: the rows by descending text of the column, rows of
  equal text in the order of the table.\<close>

definition order_by_created_at_desc :: "lead list \<Rightarrow> lead list" where
  "order_by_created_at_desc rows = rev (sort_key created_at (rev rows))"

text \<open>\<open>GET /api/leads\<close>: any authenticated caller; a telecaller gets the rows assigned to
  the caller's id.\<close>

definition GET_leads :: "claims \<Rightarrow> db \<Rightarrow> result" where
  "GET_leads u d =
     Inr (DataRows (order_by_created_at_desc
       (if role u = ''telecaller''
        then filter (\<lambda>l. assigned_to l = VNum (uid u)) (leads d)
        else leads d)))"

text \<open>\<open>GET /api/leads/:id\<close>: any authenticated caller.\<close>

definition GET_leads_id :: "claims \<Rightarrow> string \<Rightarrow> db \<Rightarrow> result" where
  "GET_leads_id u rid d =
     (case find (\<lambda>l. sql_id_eq (lead_id l) rid) (leads d) of
        None \<Rightarrow> Inl (HttpError 404 ''Lead not found'')
      | Some row \<Rightarrow> Inr (DataRow row))"

text \<open>The insert of \<open>POST /api/leads\<close> and of each row of an import. \<open>x || y\<close> on a
  value and on a text field:\<close>

definition or_val :: "val \<Rightarrow> val \<Rightarrow> val" where
  "or_val x y = (if truthy x then x else y)"

definition or_str :: "string option \<Rightarrow> string \<Rightarrow> string" where
  "or_str x y = (if truthy_str x then or_empty x else y)"

definition notes_json :: "val \<Rightarrow> string" where
  "notes_json v = (if truthy v then JSON_stringify v else ''[]'')"

definition insert_lead :: "string \<Rightarrow> lead \<Rightarrow> db \<Rightarrow> db" where
  "insert_lead now row d =
     d\<lparr>leads := leads d @ [row\<lparr>lead_id := leads_seq d + 1, created_at := now\<rparr>],
       leads_seq := leads_seq d + 1\<rparr>"

definition POST_leads :: "claims \<Rightarrow> string \<Rightarrow> lead_form \<Rightarrow> db \<Rightarrow> result \<times> db" where
  "POST_leads u now body d =
     (if \<not> requireRole [''admin'', ''manager''] u then (Inl forbidden, d)
      else
        (let row = \<lparr>name = name body, phone = phone body, email = email body, type = type body,
                    source = source body,
                    score = numeric_affinity (or_val (score body) VNull),
                    status = Some (or_str (status body) ''new''),
                    assigned_to = numeric_affinity (or_val (assigned_to body) VNull),
                    next_follow_up = numeric_affinity (or_val (next_follow_up body) VNull),
                    remarks = Some (or_str (remarks body) []),
                    notes_text = Some (notes_json (notes_sent body)),
                    lead_id = 0, created_at = []\<rparr>;
             d' = insert_lead now row d
         in (Inr (DataId (leads_seq d')),
             audit ''lead'' (VNum (leads_seq d')) ''create'' (DForm body) (performer u) d')))"

definition import_row :: "lead_form \<Rightarrow> lead" where
  "import_row l =
     \<lparr>name = Some (or_str (name l) []), phone = Some (or_str (phone l) []),
      email = Some (or_str (email l) []), type = Some (or_str (type l) []),
      source = Some (or_str (source l) []),
      score = numeric_affinity (or_val (score l) VNull),
      status = Some (or_str (status l) ''new''),
      assigned_to = numeric_affinity (or_val (assigned_to l) VNull),
      next_follow_up = numeric_affinity (or_val (next_follow_up l) VNull),
      remarks = Some (or_str (remarks l) []),
      notes_text = Some (notes_json (notes_sent l)),
      lead_id = 0, created_at = []\<rparr>"

text \<open>\<open>POST /api/leads/import\<close>; \<open>incoming\<close> is \<open>None\<close> when \<open>leads\<close> is not an array.\<close>

definition POST_leads_import ::
  "claims \<Rightarrow> string \<Rightarrow> lead_form list option \<Rightarrow> db \<Rightarrow> result \<times> db" where
  "POST_leads_import u now incoming d =
     (if \<not> requireRole [''admin'', ''manager''] u then (Inl forbidden, d)
      else case incoming of
        None \<Rightarrow> (Inl (HttpError 400 ''Expected leads: []''), d)
      | Some ls \<Rightarrow>
          (Inr (Imported (length ls)),
           audit ''lead'' (VStr []) ''import'' (DCount (length ls)) (performer u)
             (fold (\<lambda>l. insert_lead now (import_row l)) ls d)))"

text \<open>\<open>PUT /api/leads/:id\<close>: any authenticated caller. The body is the list of its keys
  and values, the keys distinct.\<close>

definition allowed :: "string list" where
  "allowed = [''name'', ''phone'', ''email'', ''type'', ''source'', ''score'', ''status'',
              ''assigned_to'', ''next_follow_up'', ''remarks'', ''notes'']"

definition body_get :: "(string \<times> val) list \<Rightarrow> string \<Rightarrow> val" where
  "body_get body k = (case map_of body k of Some v \<Rightarrow> v | None \<Rightarrow> VNull)"

text \<open>One assignment \<open>k = ?\<close> of the UPDATE, on the row it reaches.\<close>

definition sql_set :: "string \<Rightarrow> val \<Rightarrow> lead \<Rightarrow> lead" where
  "sql_set k v l =
     (if k = ''name'' then l\<lparr>name := as_text v\<rparr>
      else if k = ''phone'' then l\<lparr>phone := as_text v\<rparr>
      else if k = ''email'' then l\<lparr>email := as_text v\<rparr>
      else if k = ''type'' then l\<lparr>type := as_text v\<rparr>
      else if k = ''source'' then l\<lparr>source := as_text v\<rparr>
      else if k = ''score'' then l\<lparr>score := numeric_affinity v\<rparr>
      else if k = ''status'' then l\<lparr>status := as_text v\<rparr>
      else if k = ''assigned_to'' then l\<lparr>assigned_to := numeric_affinity v\<rparr>
      else if k = ''next_follow_up'' then l\<lparr>next_follow_up := numeric_affinity v\<rparr>
      else if k = ''remarks'' then l\<lparr>remarks := as_text v\<rparr>
      else if k = ''notes'' then l\<lparr>notes_text := as_text v\<rparr>
      else l)"

definition sql_update_leads :: "string list \<Rightarrow> val list \<Rightarrow> string \<Rightarrow> lead list \<Rightarrow> lead list" where
  "sql_update_leads keys vals rid rows =
     map (\<lambda>l. if sql_id_eq (lead_id l) rid
               then fold (\<lambda>(k, v). sql_set k v) (zip keys vals) l else l) rows"

definition PUT_leads_id ::
  "claims \<Rightarrow> string \<Rightarrow> (string \<times> val) list \<Rightarrow> db \<Rightarrow> result \<times> db" where
  "PUT_leads_id u rid body d =
     (let keys = filter (\<lambda>k. k \<in> set allowed) (map fst body);
          vals = map (\<lambda>k. if k = ''notes'' then VStr (JSON_stringify (body_get body k))
                           else body_get body k) keys
      in if keys = [] then (Inl (HttpError 400 ''No updatable fields''), d)
         else (Inr Success,
               audit ''lead'' (VStr rid) ''update'' (DBody body) (performer u)
                 (d\<lparr>leads := sql_update_leads keys vals rid (leads d)\<rparr>)))"

text \<open>\<open>DELETE /api/leads/:id\<close>, admin and manager only.\<close>

definition DELETE_leads_id :: "claims \<Rightarrow> string \<Rightarrow> db \<Rightarrow> result \<times> db" where
  "DELETE_leads_id u rid d =
     (if \<not> requireRole [''admin'', ''manager''] u then (Inl forbidden, d)
      else (Inr Success,
            audit ''lead'' (VStr rid) ''delete'' DNull (performer u)
              (d\<lparr>leads := filter (\<lambda>l. \<not> sql_id_eq (lead_id l) rid) (leads d)\<rparr>)))"

section \<open>Registration\<close>

text \<open>\<open>POST /api/auth/register\<close> runs behind no middleware. The insert fails on the
  UNIQUE constraint of \<open>users.email\<close>.\<close>

record register_body =
  reg_name :: "string option"
  reg_email :: "string option"
  reg_password :: "string option"
  reg_role :: "string option"
  reg_theme :: "string option"

definition POST_auth_register :: "register_body \<Rightarrow> db \<Rightarrow> result \<times> db" where
  "POST_auth_register body d =
     (if \<not> truthy_str (reg_email body) \<or> \<not> truthy_str (reg_password body)
        then (Inl (HttpError 400 ''Email & password required''), d)
      else if or_empty (reg_email body) \<in> set (map acc_email (users d))
        then (Inl (HttpError 400 ''SQLITE_CONSTRAINT: UNIQUE constraint failed: users.email''), d)
      else
        (let lastID = users_seq d + 1;
             row = \<lparr>acc_id = lastID, acc_name = or_str (reg_name body) [],
                    acc_email = or_empty (reg_email body),
                    acc_password = Bcrypt (or_empty (reg_password body)),
                    acc_role = or_str (reg_role body) ''telecaller'',
                    acc_theme = or_str (reg_theme body) ''light''\<rparr>;
             user = \<lparr>uid = lastID, uname = reg_name body, uemail = or_empty (reg_email body),
                     role = or_str (reg_role body) ''telecaller'',
                     theme = Some (or_str (reg_theme body) ''light'')\<rparr>;
             d' = d\<lparr>users := users d @ [row], users_seq := lastID\<rparr>
         in (Inr (TokenUser (Jwt user) user),
             audit ''user'' (VNum lastID) ''create'' (DUser user) (uemail user) d')))"


section \<open>Dates of the dashboard\<close>

text \<open>
  A JavaScript \<open>Date\<close> is a count of milliseconds since 1970-01-01T00:00:00Z, or invalid
  (\<open>None\<close>). \<open>new Date(s)\<close> is modelled on these texts: the date \<open>YYYY-MM-DD\<close> of a date
  input, which is midnight UTC; the timestamp \<open>YYYY-MM-DD HH:MM:SS\<close> of the database and
  \<open>YYYY-MM-DDTHH:MM:SS\<close>, which the browser reads in its own zone; and
  \<open>YYYY-MM-DDTHH:MM:SSZ\<close> and \<open>YYYY-MM-DDTHH:MM:SS.sssZ\<close>, which are UTC. \<open>tz\<close> is the
  number of minutes the browser's zone is ahead of UTC. A day of the month up to 31 is
  accepted in every month and runs over into the next month. Any other text is outside
  the model and an invalid date here. Years are 0000 to 9999.
\<close>

definition days_from_civil :: "int \<Rightarrow> int \<Rightarrow> int \<Rightarrow> int" where
  "days_from_civil y m d =
     (let y' = (if m \<le> 2 then y - 1 else y);
          era = y' div 400;
          yoe = y' - era * 400;
          doy = (153 * (if m > 2 then m - 3 else m + 9) + 2) div 5 + d - 1;
          doe = yoe * 365 + yoe div 4 - yoe div 100 + doy
      in era * 146097 + doe - 719468)"

definition civil_from_days :: "int \<Rightarrow> int \<times> int \<times> int" where
  "civil_from_days z =
     (let z' = z + 719468;
          era = z' div 146097;
          doe = z' - era * 146097;
          yoe = (doe - doe div 1460 + doe div 36524 - doe div 146096) div 365;
          doy = doe - (365 * yoe + yoe div 4 - yoe div 100);
          mp = (5 * doy + 2) div 153;
          d = doy - (153 * mp + 2) div 5 + 1;
          m = (if mp < 10 then mp + 3 else mp - 9)
      in ((if m \<le> 2 then yoe + era * 400 + 1 else yoe + era * 400), m, d))"

definition ms_per_day :: int where
  "ms_per_day = 86400000"

definition parse_ymd :: "string \<Rightarrow> int option" where
  "parse_ymd s =
     (if length s = 10 \<and> s ! 4 = CHR ''-'' \<and> s ! 7 = CHR ''-'' then
        (case (nat_of_string (take 4 s), nat_of_string (take 2 (drop 5 s)), nat_of_string (drop 8 s)) of
           (Some y, Some m, Some d) \<Rightarrow>
             (if 1 \<le> m \<and> m \<le> 12 \<and> 1 \<le> d \<and> d \<le> 31
              then Some (days_from_civil (int y) (int m) (int d) * ms_per_day) else None)
         | _ \<Rightarrow> None)
      else None)"

definition parse_hms :: "string \<Rightarrow> int option" where
  "parse_hms s =
     (if length s = 8 \<and> s ! 2 = CHR '':'' \<and> s ! 5 = CHR '':'' then
        (case (nat_of_string (take 2 s), nat_of_string (take 2 (drop 3 s)), nat_of_string (drop 6 s)) of
           (Some h, Some mi, Some sec) \<Rightarrow>
             (if h \<le> 23 \<and> mi \<le> 59 \<and> sec \<le> 59
              then Some (((int h * 60 + int mi) * 60 + int sec) * 1000) else None)
         | _ \<Rightarrow> None)
      else None)"

definition parse_date_time :: "string \<Rightarrow> int option" where
  "parse_date_time s =
     (case (parse_ymd (take 10 s), parse_hms (take 8 (drop 11 s))) of
        (Some day, Some ms) \<Rightarrow> Some (day + ms)
      | _ \<Rightarrow> None)"

definition Date_parse :: "int \<Rightarrow> string \<Rightarrow> int option" where
  "Date_parse tz s =
     (if length s = 10 then parse_ymd s
      else if length s = 19 \<and> (s ! 10 = CHR '' '' \<or> s ! 10 = CHR ''T'') then
        map_option (\<lambda>t. t - tz * 60000) (parse_date_time s)
      else if length s = 20 \<and> s ! 10 = CHR ''T'' \<and> s ! 19 = CHR ''Z'' then parse_date_time s
      else if length s = 24 \<and> s ! 10 = CHR ''T'' \<and> s ! 19 = CHR ''.'' \<and> s ! 23 = CHR ''Z'' then
        (case (parse_date_time s, nat_of_string (take 3 (drop 20 s))) of
           (Some t, Some ms) \<Rightarrow> Some (t + int ms)
         | _ \<Rightarrow> None)
      else None)"

text \<open>\<open>new Date(v)\<close> on a column value: a number is the count of milliseconds.\<close>

fun Date_of :: "int \<Rightarrow> val \<Rightarrow> int option" where
  "Date_of tz VNull = Some 0"
| "Date_of tz (VNum n) = Some n"
| "Date_of tz (VStr s) = Date_parse tz s"

text \<open>Comparisons of dates; one with an invalid date is false.\<close>

fun date_lt :: "int option \<Rightarrow> int option \<Rightarrow> bool" where
  "date_lt (Some a) (Some b) = (a < b)"
| "date_lt _ _ = False"

fun date_le :: "int option \<Rightarrow> int option \<Rightarrow> bool" where
  "date_le (Some a) (Some b) = (a \<le> b)"
| "date_le _ _ = False"

definition pad :: "nat \<Rightarrow> string \<Rightarrow> string" where
  "pad n s = replicate (n - length s) CHR ''0'' @ s"

text \<open>\<open>now.toISOString().slice(0, 10)\<close>: the UTC date of an instant.\<close>

definition toISOString_date :: "int \<Rightarrow> string" where
  "toISOString_date now =
     (case civil_from_days (now div ms_per_day) of
        (y, m, d) \<Rightarrow> pad 4 (digits (nat y)) @ ''-'' @ pad 2 (digits (nat m)) @ ''-'' @ pad 2 (digits (nat d)))"

section \<open>The admin dashboard\<close>

text \<open>
  \<open>generateAlerts(leadsArr, callsArr)\<close> reads the clock once; \<open>now\<close> is that instant,
  and \<open>tz\<close> the browser's zone.
  The three counts are its local constants. An alert is the text of its template:
  \<open>n follow-ups for today\<close>, \<open>n pending items\<close>, \<open>n missed follow-ups\<close>.
\<close>

datatype alert = FollowUpsForToday nat | PendingItems nat | MissedFollowUps nat

definition todaysFollowups :: "lead list \<Rightarrow> int \<Rightarrow> nat" where
  "todaysFollowups leadsArr now =
     length (filter (\<lambda>l. next_follow_up l = VStr (toISOString_date now)) leadsArr)"

definition pending :: "lead list \<Rightarrow> nat" where
  "pending leadsArr =
     length (filter (\<lambda>l. toLowerCase (or_empty (status l)) \<in> set [''pending'', ''follow-up''])
               leadsArr)"

definition missed :: "int \<Rightarrow> lead list \<Rightarrow> int \<Rightarrow> nat" where
  "missed tz leadsArr now =
     length (filter (\<lambda>l. truthy (next_follow_up l)
                        \<and> date_lt (Date_of tz (next_follow_up l)) (Some now)) leadsArr)"

definition generateAlerts :: "int \<Rightarrow> lead list \<Rightarrow> int \<Rightarrow> alert list" where
  "generateAlerts tz leadsArr now =
     (if todaysFollowups leadsArr now \<noteq> 0 then [FollowUpsForToday (todaysFollowups leadsArr now)] else [])
     @ (if pending leadsArr \<noteq> 0 then [PendingItems (pending leadsArr)] else [])
     @ (if missed tz leadsArr now \<noteq> 0 then [MissedFollowUps (missed tz leadsArr now)] else [])"

text \<open>
  \<open>computeScore(lead)\<close>; \<open>rnd\<close> is the value \<open>Math.random()\<close> returns, a real in
  \<open>[0, 1)\<close>.
\<close>

definition computeScore :: "'a lead_fields_scheme \<Rightarrow> real \<Rightarrow> int" where
  "computeScore lead rnd =
     (let score0 = 0;
          score1 = (if truthy_str (email lead) then score0 + 10 else score0);
          score2 = (if truthy_str (phone lead) then score1 + 20 else score1);
          score3 = (if toLowerCase (or_empty (source lead)) = ''website'' then score2 + 5 else score2);
          score4 = (if toLowerCase (or_empty (type lead)) = ''insurance'' then score3 + 8 else score3)
      in score4 + \<lfloor>rnd * 10\<rfloor>)"

text \<open>\<open>createLead(data)\<close> fills the score in when the form has none, then posts the form.\<close>

definition createLead_data :: "lead_form \<Rightarrow> real \<Rightarrow> lead_form" where
  "createLead_data data rnd =
     (if \<not> truthy (score data) then data\<lparr>score := VNum (computeScore data rnd)\<rparr> else data)"

definition createLead :: "claims \<Rightarrow> string \<Rightarrow> lead_form \<Rightarrow> real \<Rightarrow> db \<Rightarrow> result \<times> db" where
  "createLead u now data rnd d = POST_leads u now (createLead_data data rnd) d"

text \<open>\<open>mergeLeads(keepId, mergeIds)\<close>: \<open>None\<close> is the alert \<open>Provide keepId and mergeIds\<close>,
  with no request sent.\<close>

definition mergeLeads :: "claims \<Rightarrow> val \<Rightarrow> int list option \<Rightarrow> db \<Rightarrow> (result \<times> db) option" where
  "mergeLeads u keepId mergeIds d =
     (if \<not> truthy keepId \<or> mergeIds = None \<or> mergeIds = Some [] then None
      else Some (POST_leads_merge u keepId mergeIds d))"

text \<open>\<open>filteredLeads\<close>, over the fetched rows and the six filter states; an empty state
  is a filter not set. The dashboard has an input for each state but \<open>dateFrom\<close>, which
  stays empty.\<close>

definition filteredLeads ::
  "int \<Rightarrow> lead list \<Rightarrow> string \<Rightarrow> string \<Rightarrow> string \<Rightarrow> string \<Rightarrow> string \<Rightarrow> string \<Rightarrow> lead list" where
  "filteredLeads tz rows searchTerm filterStatus filterType filterUser dateFrom dateTo =
     (let q = toLowerCase (trim searchTerm);
          data = rows;
          data = (if q \<noteq> [] then
                    filter (\<lambda>it. includes_str (toLowerCase (or_empty (name it))) q
                                \<or> includes_str (toLowerCase (or_empty (phone it))) q
                                \<or> includes_str (toLowerCase (or_empty (email it))) q) data
                  else data);
          data = (if filterStatus \<noteq> [] then
                    filter (\<lambda>l. toLowerCase (or_empty (status l)) = toLowerCase filterStatus) data
                  else data);
          data = (if filterType \<noteq> [] then
                    filter (\<lambda>l. toLowerCase (or_empty (type l)) = toLowerCase filterType) data
                  else data);
          data = (if filterUser \<noteq> [] then
                    filter (\<lambda>l. String_of (or_val (assigned_to l) (VStr [])) = filterUser) data
                  else data);
          data = (if dateFrom \<noteq> [] then
                    filter (\<lambda>l. created_at l \<noteq> []
                                \<and> date_le (Date_parse tz dateFrom) (Date_parse tz (created_at l))) data
                  else data);
          data = (if dateTo \<noteq> [] then
                    filter (\<lambda>l. created_at l \<noteq> []
                                \<and> date_le (Date_parse tz (created_at l)) (Date_parse tz dateTo)) data
                  else data)
      in data)"

text \<open>
  \<open>findDuplicates()\<close>. The object \<open>map\<close> is the list of its keys, in insertion order,
  each with its array; a group \<open>{key, values}\<close> is the pair.
\<close>

definition dup_key :: "lead \<Rightarrow> string" where
  "dup_key l = trim (or_empty (phone l) @ ''|'' @ or_empty (email l))"

definition push_group :: "string \<Rightarrow> lead \<Rightarrow> (string \<times> lead list) list \<Rightarrow> (string \<times> lead list) list" where
  "push_group key l m =
     (if key \<in> set (map fst m)
      then map (\<lambda>(k, vals). if k = key then (k, vals @ [l]) else (k, vals)) m
      else m @ [(key, [l])])"

definition findDuplicates :: "lead list \<Rightarrow> (string \<times> lead list) list" where
  "findDuplicates rows =
     filter (\<lambda>(k, vals). length vals > 1)
       (fold (\<lambda>l m. if dup_key l = [] then m else push_group (dup_key l) l m) rows [])"


text \<open>
  What an update is to do to the row it reaches, column by column: a column named in the
  request takes the request's value, as the column stores it, and every other column
  stays. Only the columns of the allow-list appear.
\<close>

definition set_text :: "(string \<times> val) list \<Rightarrow> string \<Rightarrow> string option \<Rightarrow> string option" where
  "set_text body k old = (case map_of body k of Some v \<Rightarrow> as_text v | None \<Rightarrow> old)"

definition set_numeric :: "(string \<times> val) list \<Rightarrow> string \<Rightarrow> val \<Rightarrow> val" where
  "set_numeric body k old = (case map_of body k of Some v \<Rightarrow> numeric_affinity v | None \<Rightarrow> old)"

definition updated_lead :: "(string \<times> val) list \<Rightarrow> lead \<Rightarrow> lead" where
  "updated_lead body l =
     l\<lparr>name := set_text body ''name'' (name l),
       phone := set_text body ''phone'' (phone l),
       email := set_text body ''email'' (email l),
       type := set_text body ''type'' (type l),
       source := set_text body ''source'' (source l),
       score := set_numeric body ''score'' (score l),
       status := set_text body ''status'' (status l),
       assigned_to := set_numeric body ''assigned_to'' (assigned_to l),
       next_follow_up := set_numeric body ''next_follow_up'' (next_follow_up l),
       remarks := set_text body ''remarks'' (remarks l),
       notes_text := (case map_of body ''notes'' of
                        Some v \<Rightarrow> Some (JSON_stringify v)
                      | None \<Rightarrow> notes_text l)\<rparr>"

text \<open>
  The fixed bonuses of the score. \<open>spec_floor\<close> is the spec's formula as it is written:
  email present 10, phone present 20, source \<open>website\<close> 5, type \<open>insurance\<close> 8.
  \<open>deterministic_floor\<close> is the sum \<open>computeScore\<close> makes, which reads source and type
  after \<open>toLowerCase\<close>.
\<close>

definition spec_floor :: "'a lead_fields_scheme \<Rightarrow> int" where
  "spec_floor lead =
     (if truthy_str (email lead) then 10 else 0)
     + (if truthy_str (phone lead) then 20 else 0)
     + (if source lead = Some ''website'' then 5 else 0)
     + (if type lead = Some ''insurance'' then 8 else 0)"

definition deterministic_floor :: "'a lead_fields_scheme \<Rightarrow> int" where
  "deterministic_floor lead =
     (if truthy_str (email lead) then 10 else 0)
     + (if truthy_str (phone lead) then 20 else 0)
     + (if toLowerCase (or_empty (source lead)) = ''website'' then 5 else 0)
     + (if toLowerCase (or_empty (type lead)) = ''insurance'' then 8 else 0)"

section \<open>Example data\<close>

text \<open>Two leads with the same phone and email, as in the spec's scenario, assigned to
  the accounts 2 and 3; an admin; the telecaller with account id 2.\<close>

definition lead_A :: lead where
  "lead_A =
     \<lparr>name = Some ''A'', phone = Some ''555-1'', email = Some ''a@x.com'', type = None,
      source = None, score = VNum 31, status = Some ''new'', assigned_to = VNum 2,
      next_follow_up = VStr ''2024-01-05'', remarks = Some [], notes_text = Some ''[]'',
      lead_id = 1, created_at = ''2024-01-03 10:00:00''\<rparr>"

definition lead_B :: lead where
  "lead_B =
     \<lparr>name = Some ''B'', phone = Some ''555-1'', email = Some ''a@x.com'', type = None,
      source = None, score = VNum 35, status = Some ''Pending'', assigned_to = VNum 3,
      next_follow_up = VNull, remarks = Some [], notes_text = Some ''[]'',
      lead_id = 2, created_at = ''2024-01-04 09:30:00''\<rparr>"

definition admin_user :: claims where
  "admin_user =
     \<lparr>uid = 1, uname = Some ''Admin User'', uemail = ''admin@crm.com'', role = ''admin'',
      theme = None\<rparr>"

definition telecaller_2 :: claims where
  "telecaller_2 =
     \<lparr>uid = 2, uname = Some ''T'', uemail = ''t2@crm.com'', role = ''telecaller'',
      theme = None\<rparr>"

definition db_AB :: db where
  "db_AB = \<lparr>users = [], users_seq = 0, leads = [lead_A, lead_B], leads_seq = 2, audit_logs = []\<rparr>"

text \<open>Two leads with neither phone nor email.\<close>

definition blank_1 :: lead where
  "blank_1 = lead_A\<lparr>name := Some ''C'', phone := Some [], email := None, lead_id := 3\<rparr>"

definition blank_2 :: lead where
  "blank_2 = lead_A\<lparr>name := Some ''D'', phone := None, email := Some [], lead_id := 4\<rparr>"

text \<open>A lead form without a score, and registration bodies.\<close>

definition form_1 :: lead_form where
  "form_1 =
     \<lparr>name = Some ''E'', phone = Some ''555-2'', email = Some ''e@x.com'', type = Some [],
      source = Some ''Website'', score = VStr [], status = Some [], assigned_to = VStr ''2'',
      next_follow_up = VStr [], remarks = Some [], notes_sent = VNull\<rparr>"

text \<open>A form with a name alone, a form whose source is \<open>Website\<close>, and a lead created
  in the evening of 2024-01-05.\<close>

definition form_0 :: lead_form where
  "form_0 =
     \<lparr>name = Some ''F'', phone = Some [], email = Some [], type = Some [], source = Some [],
      score = VStr [], status = Some [], assigned_to = VStr [], next_follow_up = VStr [],
      remarks = Some [], notes_sent = VNull\<rparr>"

definition form_W :: lead_form where
  "form_W = form_0\<lparr>source := Some ''Website''\<rparr>"

definition lead_late :: lead where
  "lead_late = lead_A\<lparr>lead_id := 5, created_at := ''2024-01-05 20:00:00''\<rparr>"

definition reg_admin :: register_body where
  "reg_admin =
     \<lparr>reg_name = Some ''Eve'', reg_email = Some ''eve@x.com'', reg_password = Some ''pw'',
      reg_role = Some ''admin'', reg_theme = None\<rparr>"

definition reg_empty_role :: register_body where
  "reg_empty_role = reg_admin\<lparr>reg_role := Some []\<rparr>"


section \<open>Properties\<close>

subsection \<open>Merge\<close>

text \<open>
  C1. A merge whose \<open>keepId\<close> is among \<open>mergeIds\<close>, or whose \<open>mergeIds\<close> is empty, is to
  fail with InvalidArgument and leave the lead store as it was. The route checks neither:
  with \<open>keepId = 1\<close> and \<open>mergeIds = [1, 2]\<close> it answers success and deletes both leads,
  the kept one included; with an empty \<open>mergeIds\<close> it answers success. The dashboard's
  \<open>mergeLeads\<close> does refuse an empty \<open>mergeIds\<close>.
\<close>

theorem merge_unvalidated:
  "fst (POST_leads_merge admin_user (VNum 1) (Some [1, 2]) db_AB) = Inr Success
   \<and> leads (snd (POST_leads_merge admin_user (VNum 1) (Some [1, 2]) db_AB)) = []
   \<and> fst (POST_leads_merge admin_user (VNum 1) (Some []) db_AB) = Inr Success
   \<and> mergeLeads admin_user (VNum 1) (Some []) db_AB = None"
  by (simp add: POST_leads_merge_def mergeLeads_def requireRole_def audit_def Let_def
      admin_user_def db_AB_def lead_A_def lead_B_def)

theorem merge_unvalidated_witness:
  "leads (snd (POST_leads_merge admin_user (VNum 1) (Some [1, 2]) db_AB)) = []"
  using merge_unvalidated by blast

text \<open>The same for every admin or manager and every store: a merge whose \<open>mergeIds\<close>
  holds \<open>keepId\<close> succeeds and leaves no lead of that id.\<close>

lemma merge_deletes_kept:
  assumes "requireRole [''admin'', ''manager''] u" and "k \<noteq> 0" and "k \<in> set ids"
  shows "fst (POST_leads_merge u (VNum k) (Some ids) d) = Inr Success"
    and "k \<notin> lead_id ` set (leads (snd (POST_leads_merge u (VNum k) (Some ids) d)))"
  using assms by (auto simp: POST_leads_merge_def audit_def Let_def)

text \<open>
  C2. A merge that succeeds, with \<open>keepId\<close> not among \<open>mergeIds\<close> and \<open>mergeIds\<close> not
  empty, leaves no lead whose id is in \<open>mergeIds\<close>, leaves the leads with id \<open>keepId\<close>
  as they were, and appends one audit row, of action \<open>merge\<close>, whose details name the kept
  and the removed ids.
\<close>

theorem merge_deletes_and_audits:
  assumes ok: "fst (POST_leads_merge u (VNum k) (Some ids) d) = Inr Success"
    and "k \<notin> set ids" and "ids \<noteq> []"
  shows "(\<forall>l \<in> set (leads (snd (POST_leads_merge u (VNum k) (Some ids) d))). lead_id l \<notin> set ids)
       \<and> filter (\<lambda>l. lead_id l = k) (leads (snd (POST_leads_merge u (VNum k) (Some ids) d)))
           = filter (\<lambda>l. lead_id l = k) (leads d)
       \<and> audit_logs (snd (POST_leads_merge u (VNum k) (Some ids) d))
           = audit_logs d @ [\<lparr>entity = ''lead'', entity_id = String_of_int k, action = ''merge'',
                details = DMerge (VNum k) ids, performed_by = performer u\<rparr>]"
proof -
  from ok have role: "requireRole [''admin'', ''manager''] u" and k0: "k \<noteq> 0"
    by (auto simp: POST_leads_merge_def forbidden_def split: if_splits)
  have keep: "filter (\<lambda>l. lead_id l = k) (filter (\<lambda>l. lead_id l \<notin> set ids) (leads d))
            = filter (\<lambda>l. lead_id l = k) (leads d)"
    using \<open>k \<notin> set ids\<close> by (induction "leads d") (auto intro: filter_cong)
  show ?thesis
    using role k0 keep by (simp add: POST_leads_merge_def audit_def Let_def)
qed

theorem merge_deletes_and_audits_witness:
  "fst (POST_leads_merge admin_user (VNum 1) (Some [2]) db_AB) = Inr Success
   \<and> (1::int) \<notin> set [2] \<and> [2::int] \<noteq> []
   \<and> leads (snd (POST_leads_merge admin_user (VNum 1) (Some [2]) db_AB)) = [lead_A]
   \<and> map action (audit_logs (snd (POST_leads_merge admin_user (VNum 1) (Some [2]) db_AB))) = [''merge'']"
  using merge_deletes_and_audits [of admin_user 1 "[2]" db_AB]
  by (simp add: POST_leads_merge_def requireRole_def admin_user_def db_AB_def lead_A_def lead_B_def
      audit_def Let_def)

subsection \<open>What a telecaller reads\<close>

text \<open>The list route gives a telecaller only rows assigned to the caller's id.\<close>

lemma set_order_by_created_at_desc: "set (order_by_created_at_desc rows) = set rows"
  by (simp add: order_by_created_at_desc_def)

lemma GET_leads_scoped:
  assumes "role u = ''telecaller''" and "GET_leads u d = Inr (DataRows rows)" and "l \<in> set rows"
  shows "assigned_to l = VNum (uid u)"
proof -
  from assms(1,2) have "set rows = set (filter (\<lambda>l. assigned_to l = VNum (uid u)) (leads d))"
    by (auto simp: GET_leads_def set_order_by_created_at_desc)
  with assms(3) show ?thesis by simp
qed

text \<open>
  C3. Every read of the lead store by a telecaller, the list and the read by id, is to
  return only leads assigned to the caller. The read by id has no such scope: the
  telecaller with account id 2 reads lead 2, which is assigned to account 3, while the
  list gives the same caller lead 1 alone.
\<close>

theorem read_by_id_unscoped:
  "role telecaller_2 = ''telecaller'' \<and> uid telecaller_2 = 2 \<and> assigned_to lead_B = VNum 3
   \<and> GET_leads_id telecaller_2 ''2'' db_AB = Inr (DataRow lead_B)
   \<and> GET_leads telecaller_2 db_AB = Inr (DataRows [lead_A])"
  by code_simp

theorem read_by_id_unscoped_witness:
  "GET_leads_id telecaller_2 ''2'' db_AB = Inr (DataRow lead_B)"
  using read_by_id_unscoped by blast

subsection \<open>What a telecaller writes\<close>

lemma sql_set_lead_id: "lead_id (sql_set k v l) = lead_id l"
  by (simp add: sql_set_def)

text \<open>The other routes that write leads are behind the role check: they refuse a
  telecaller and leave the database as it was.\<close>

lemma telecaller_refused:
  assumes "role u = ''telecaller''"
  shows "DELETE_leads_id u rid d = (Inl forbidden, d)"
    and "POST_leads_merge u keepId mergeIds d = (Inl forbidden, d)"
    and "POST_leads u now form d = (Inl forbidden, d)"
    and "POST_leads_import u now incoming d = (Inl forbidden, d)"
proof -
  have no: "\<not> requireRole [''admin'', ''manager''] u"
    using assms by (simp add: requireRole_def)
  show "DELETE_leads_id u rid d = (Inl forbidden, d)"
    using no by (simp add: DELETE_leads_id_def)
  show "POST_leads_merge u keepId mergeIds d = (Inl forbidden, d)"
    using no by (simp add: POST_leads_merge_def)
  show "POST_leads u now form d = (Inl forbidden, d)"
    using no by (simp add: POST_leads_def)
  show "POST_leads_import u now incoming d = (Inl forbidden, d)"
    using no by (simp add: POST_leads_import_def)
qed

text \<open>
  C4. No write of a telecaller is to change a lead's \<open>assigned_to\<close> or \<open>score\<close>, and a
  telecaller is to write only leads assigned to the caller. The update route has neither
  the role check of the other write routes nor the owner scope of the list route: the
  telecaller with account id 2 updates lead 2, which is assigned to account 3, and sets
  its \<open>assigned_to\<close> and its \<open>score\<close>.
\<close>

theorem telecaller_reassigns:
  "role telecaller_2 = ''telecaller'' \<and> assigned_to lead_B = VNum 3 \<and> score lead_B = VNum 35
   \<and> fst (PUT_leads_id telecaller_2 ''2'' [(''assigned_to'', VNum 2), (''score'', VNum 99)] db_AB)
       = Inr Success
   \<and> leads (snd (PUT_leads_id telecaller_2 ''2'' [(''assigned_to'', VNum 2), (''score'', VNum 99)] db_AB))
       = [lead_A, lead_B\<lparr>score := VNum 99, assigned_to := VNum 2\<rparr>]"
  by code_simp

theorem telecaller_reassigns_witness:
  "leads (snd (PUT_leads_id telecaller_2 ''2'' [(''assigned_to'', VNum 2), (''score'', VNum 99)] db_AB))
     = [lead_A, lead_B\<lparr>score := VNum 99, assigned_to := VNum 2\<rparr>]"
  using telecaller_reassigns by blast

subsection \<open>Duplicates\<close>

text \<open>
  C5. A lead with empty phone and empty email is to be placed in no duplicate group. The
  key is the trimmed text \<open>phone|email\<close>, which holds the separator and so is never
  empty: the check for an empty key never applies, and two leads with neither phone nor
  email form the group of key \<open>|\<close>.
\<close>

theorem findDuplicates_blank:
  "or_empty (phone blank_1) = [] \<and> or_empty (email blank_1) = []
   \<and> or_empty (phone blank_2) = [] \<and> or_empty (email blank_2) = []
   \<and> findDuplicates [blank_1, blank_2] = [(''|'', [blank_1, blank_2])]"
  by (simp add: findDuplicates_def dup_key_def push_group_def trim_def is_space_def
      blank_1_def blank_2_def lead_A_def)

theorem findDuplicates_blank_witness:
  "findDuplicates [blank_1, blank_2] = [(''|'', [blank_1, blank_2])]"
  using findDuplicates_blank by blast

subsection \<open>Score\<close>

text \<open>
  C6, as the code has it. When the form has no score (none, an empty one or 0), the
  score \<open>createLead\<close> sends is the sum of the fixed bonuses, source and type read without
  regard to letter case, plus the jitter \<open>Math.floor(Math.random() * 10)\<close>: at least that
  floor and less than the floor plus 10, whatever \<open>Math.random()\<close> returns in \<open>[0, 1)\<close>.
  The request of an admin or manager creates one lead, and the lead is stored with that
  score whenever the score is not 0.
\<close>

theorem createLead_score:
  assumes "requireRole [''admin'', ''manager''] u"
    and "\<not> truthy (score data)" and "0 \<le> rnd" and "rnd < 1"
  shows "\<exists>s. s = deterministic_floor data + \<lfloor>rnd * 10\<rfloor>
            \<and> deterministic_floor data \<le> s \<and> s < deterministic_floor data + 10
            \<and> score (createLead_data data rnd) = VNum s
            \<and> fst (createLead u now data rnd d) = Inr (DataId (leads_seq d + 1))
            \<and> map lead_id (leads (snd (createLead u now data rnd d)))
                = map lead_id (leads d) @ [leads_seq d + 1]
            \<and> (s \<noteq> 0 \<longrightarrow>
                 map score (leads (snd (createLead u now data rnd d))) = map score (leads d) @ [VNum s])"
proof -
  have lo: "0 \<le> \<lfloor>rnd * 10\<rfloor>" using \<open>0 \<le> rnd\<close> by simp
  have "rnd * 10 < 10" using \<open>rnd < 1\<close> by simp
  then have hi: "\<lfloor>rnd * 10\<rfloor> < 10" by (simp add: floor_less_iff)
  have eq: "computeScore data rnd = deterministic_floor data + \<lfloor>rnd * 10\<rfloor>"
    by (simp add: computeScore_def deterministic_floor_def Let_def)
  have sent: "score (createLead_data data rnd) = VNum (deterministic_floor data + \<lfloor>rnd * 10\<rfloor>)"
    using assms(2) eq by (simp add: createLead_data_def)
  have stored: "map score (leads (snd (createLead u now data rnd d)))
      = map score (leads d) @ [numeric_affinity (or_val (score (createLead_data data rnd)) VNull)]"
    using assms(1) by (simp add: createLead_def POST_leads_def insert_lead_def audit_def Let_def)
  have ids: "map lead_id (leads (snd (createLead u now data rnd d)))
      = map lead_id (leads d) @ [leads_seq d + 1]"
    using assms(1) by (simp add: createLead_def POST_leads_def insert_lead_def audit_def Let_def)
  have reply: "fst (createLead u now data rnd d) = Inr (DataId (leads_seq d + 1))"
    using assms(1) by (simp add: createLead_def POST_leads_def insert_lead_def audit_def Let_def)
  show ?thesis
    using lo hi sent stored ids reply by (simp add: or_val_def)
qed

theorem createLead_score_witness:
  "requireRole [''admin'', ''manager''] admin_user \<and> \<not> truthy (score form_1)
   \<and> (0::real) \<le> 37 / 100 \<and> (37 / 100 :: real) < 1
   \<and> deterministic_floor form_1 = 35
   \<and> score (createLead_data form_1 (37 / 100)) = VNum 38
   \<and> map score (leads (snd (createLead admin_user ''2024-01-06 08:00:00'' form_1 (37 / 100) db_AB)))
       = [VNum 31, VNum 35, VNum 38]"
proof -
  have h1: "requireRole [''admin'', ''manager''] admin_user"
    by (simp add: requireRole_def admin_user_def)
  have h2: "\<not> truthy (score form_1)"
    by (simp add: form_1_def)
  have fl: "deterministic_floor form_1 = 35"
    by (simp add: deterministic_floor_def form_1_def truthy_str_def toLowerCase_def lower_char_def)
  have old: "map score (leads db_AB) = [VNum 31, VNum 35]"
    by (simp add: db_AB_def lead_A_def lead_B_def)
  from createLead_score [OF h1 h2, of "37 / 100" "''2024-01-06 08:00:00''" db_AB]
  show ?thesis
    using h1 h2 fl old by simp
qed

text \<open>
  C6 as stated fails. A form with a name alone and a jitter of 0 is sent with score 0
  and the lead is stored with no score (NULL), which is no number at or above the floor.
  And a form whose source is \<open>Website\<close>, which is not the \<open>website\<close> of the formula as
  written, gets the bonus of 5: with a jitter of 9 its score is 14, not less than the
  written floor 0 plus 10.
\<close>

theorem createLead_score_counterexample:
  "\<not> truthy (score form_0) \<and> spec_floor form_0 = 0
   \<and> score (createLead_data form_0 0) = VNum 0
   \<and> map score (leads (snd (createLead admin_user ''2024-01-06 08:00:00'' form_0 0 db_AB)))
       = [VNum 31, VNum 35, VNull]
   \<and> \<not> truthy (score form_W) \<and> spec_floor form_W = 0
   \<and> score (createLead_data form_W (9 / 10)) = VNum 14"
  by (simp add: form_0_def form_W_def spec_floor_def truthy_str_def createLead_data_def computeScore_def
      toLowerCase_def lower_char_def createLead_def POST_leads_def insert_lead_def audit_def Let_def
      requireRole_def admin_user_def db_AB_def lead_A_def lead_B_def or_val_def or_str_def notes_json_def)

subsection \<open>Update\<close>

lemma fold_sql_set_col:
  assumes "\<And>k v l. get (sql_set k v l) = (if k = kc then conv v else get l)"
  shows "get (fold (\<lambda>(k, v). sql_set k v) (zip ks (map g ks)) l)
       = (if kc \<in> set ks then conv (g kc) else get l)"
  by (induction ks arbitrary: l) (simp_all add: assms)

lemma fold_sql_set_same:
  assumes "\<And>k v l. get (sql_set k v l) = get l"
  shows "get (fold (\<lambda>(k, v). sql_set k v) kvs l) = get l"
  by (induction kvs arbitrary: l) (auto simp: assms)

lemma sql_set_name: "name (sql_set k v l) = (if k = ''name'' then as_text v else name l)"
  by (simp add: sql_set_def)

lemma sql_set_phone: "phone (sql_set k v l) = (if k = ''phone'' then as_text v else phone l)"
  by (simp add: sql_set_def)

lemma sql_set_email: "email (sql_set k v l) = (if k = ''email'' then as_text v else email l)"
  by (simp add: sql_set_def)

lemma sql_set_type: "type (sql_set k v l) = (if k = ''type'' then as_text v else type l)"
  by (simp add: sql_set_def)

lemma sql_set_source: "source (sql_set k v l) = (if k = ''source'' then as_text v else source l)"
  by (simp add: sql_set_def)

lemma sql_set_score: "score (sql_set k v l) = (if k = ''score'' then numeric_affinity v else score l)"
  by (simp add: sql_set_def)

lemma sql_set_status: "status (sql_set k v l) = (if k = ''status'' then as_text v else status l)"
  by (simp add: sql_set_def)

lemma sql_set_assigned_to: "assigned_to (sql_set k v l) = (if k = ''assigned_to'' then numeric_affinity v else assigned_to l)"
  by (simp add: sql_set_def)

lemma sql_set_next_follow_up: "next_follow_up (sql_set k v l) = (if k = ''next_follow_up'' then numeric_affinity v else next_follow_up l)"
  by (simp add: sql_set_def)

lemma sql_set_remarks: "remarks (sql_set k v l) = (if k = ''remarks'' then as_text v else remarks l)"
  by (simp add: sql_set_def)

lemma sql_set_notes_text: "notes_text (sql_set k v l) = (if k = ''notes'' then as_text v else notes_text l)"
  by (simp add: sql_set_def)

lemma sql_set_created_at: "created_at (sql_set k v l) = created_at l"
  by (simp add: sql_set_def)

lemmas sql_set_cols =
  sql_set_name sql_set_phone sql_set_email sql_set_type sql_set_source sql_set_score
  sql_set_status sql_set_assigned_to sql_set_next_follow_up sql_set_remarks sql_set_notes_text

lemma key_present:
  "k \<in> set (filter (\<lambda>k. k \<in> set allowed) (map fst body))
     \<longleftrightarrow> k \<in> set allowed \<and> map_of body k \<noteq> None"
  by (auto simp: map_of_eq_None_iff)

lemma set_text_keys:
  assumes "k \<in> set allowed" and "k \<noteq> ''notes''"
  shows "(if k \<in> set (filter (\<lambda>k. k \<in> set allowed) (map fst body))
          then as_text (if k = ''notes'' then VStr (JSON_stringify (body_get body k)) else body_get body k)
          else old) = set_text body k old"
  unfolding key_present using assms
  by (cases "map_of body k") (simp_all add: set_text_def body_get_def)

lemma set_numeric_keys:
  assumes "k \<in> set allowed" and "k \<noteq> ''notes''"
  shows "(if k \<in> set (filter (\<lambda>k. k \<in> set allowed) (map fst body))
          then numeric_affinity (if k = ''notes'' then VStr (JSON_stringify (body_get body k)) else body_get body k)
          else old) = set_numeric body k old"
  unfolding key_present using assms
  by (cases "map_of body k") (simp_all add: set_numeric_def body_get_def)

lemma notes_keys:
  "(if ''notes'' \<in> set (filter (\<lambda>k. k \<in> set allowed) (map fst body))
    then as_text (VStr (JSON_stringify (body_get body ''notes''))) else old)
   = (case map_of body ''notes'' of Some v \<Rightarrow> Some (JSON_stringify v) | None \<Rightarrow> old)"
  unfolding key_present
  by (cases "map_of body ''notes''") (simp_all add: body_get_def allowed_def)

lemma update_row:
  "fold (\<lambda>(k, v). sql_set k v)
     (zip (filter (\<lambda>k. k \<in> set allowed) (map fst body))
          (map (\<lambda>k. if k = ''notes'' then VStr (JSON_stringify (body_get body k)) else body_get body k)
             (filter (\<lambda>k. k \<in> set allowed) (map fst body)))) l
   = updated_lead body l"
proof (rule lead.equality)
  let ?g = "\<lambda>k. if k = ''notes'' then VStr (JSON_stringify (body_get body k)) else body_get body k"
  let ?ks = "filter (\<lambda>k. k \<in> set allowed) (map fst body)"
  let ?r = "fold (\<lambda>(k, v). sql_set k v) (zip ?ks (map ?g ?ks)) l"
  show "name ?r = name (updated_lead body l)"
    using set_text_keys [of "''name''" body "name l"]
    by (simp add: fold_sql_set_col [where get = name, OF sql_set_name] updated_lead_def allowed_def del: set_filter)
  show "phone ?r = phone (updated_lead body l)"
    using set_text_keys [of "''phone''" body "phone l"]
    by (simp add: fold_sql_set_col [where get = phone, OF sql_set_phone] updated_lead_def allowed_def del: set_filter)
  show "email ?r = email (updated_lead body l)"
    using set_text_keys [of "''email''" body "email l"]
    by (simp add: fold_sql_set_col [where get = email, OF sql_set_email] updated_lead_def allowed_def del: set_filter)
  show "type ?r = type (updated_lead body l)"
    using set_text_keys [of "''type''" body "type l"]
    by (simp add: fold_sql_set_col [where get = type, OF sql_set_type] updated_lead_def allowed_def del: set_filter)
  show "source ?r = source (updated_lead body l)"
    using set_text_keys [of "''source''" body "source l"]
    by (simp add: fold_sql_set_col [where get = source, OF sql_set_source] updated_lead_def allowed_def del: set_filter)
  show "score ?r = score (updated_lead body l)"
    using set_numeric_keys [of "''score''" body "score l"]
    by (simp add: fold_sql_set_col [where get = score, OF sql_set_score] updated_lead_def allowed_def del: set_filter)
  show "status ?r = status (updated_lead body l)"
    using set_text_keys [of "''status''" body "status l"]
    by (simp add: fold_sql_set_col [where get = status, OF sql_set_status] updated_lead_def allowed_def del: set_filter)
  show "assigned_to ?r = assigned_to (updated_lead body l)"
    using set_numeric_keys [of "''assigned_to''" body "assigned_to l"]
    by (simp add: fold_sql_set_col [where get = assigned_to, OF sql_set_assigned_to] updated_lead_def allowed_def del: set_filter)
  show "next_follow_up ?r = next_follow_up (updated_lead body l)"
    using set_numeric_keys [of "''next_follow_up''" body "next_follow_up l"]
    by (simp add: fold_sql_set_col [where get = next_follow_up, OF sql_set_next_follow_up] updated_lead_def allowed_def del: set_filter)
  show "remarks ?r = remarks (updated_lead body l)"
    using set_text_keys [of "''remarks''" body "remarks l"]
    by (simp add: fold_sql_set_col [where get = remarks, OF sql_set_remarks] updated_lead_def allowed_def del: set_filter)
  show "notes_text ?r = notes_text (updated_lead body l)"
    using notes_keys [of body "notes_text l"]
    by (simp add: fold_sql_set_col [where get = notes_text, OF sql_set_notes_text] updated_lead_def del: set_filter split: if_splits)
  show "lead_id ?r = lead_id (updated_lead body l)"
    by (simp add: fold_sql_set_same [where get = lead_id, OF sql_set_lead_id] updated_lead_def)
  show "created_at ?r = created_at (updated_lead body l)"
    by (simp add: fold_sql_set_same [where get = created_at, OF sql_set_created_at] updated_lead_def)
  show "lead.more ?r = lead.more (updated_lead body l)"
    by simp
qed

text \<open>
  C7, as the code has it. An update is refused, with status 400 and the database as it
  was, exactly when no key of the body is in the allow-list. Otherwise it succeeds: in
  the lead of the given id every allow-listed field of the body takes the body's value,
  every other column stays, and the other leads stay; a field outside the allow-list has
  no effect.
\<close>

theorem update_applies_allowed_fields:
  "(fst (PUT_leads_id u rid body d) = Inl (HttpError 400 ''No updatable fields'')
      \<longleftrightarrow> (\<forall>k \<in> set (map fst body). k \<notin> set allowed))
   \<and> ((\<forall>k \<in> set (map fst body). k \<notin> set allowed) \<longrightarrow> snd (PUT_leads_id u rid body d) = d)
   \<and> ((\<exists>k \<in> set (map fst body). k \<in> set allowed) \<longrightarrow>
        fst (PUT_leads_id u rid body d) = Inr Success
        \<and> leads (snd (PUT_leads_id u rid body d))
            = map (\<lambda>l. if sql_id_eq (lead_id l) rid then updated_lead body l else l) (leads d))"
proof -
  let ?ks = "filter (\<lambda>k. k \<in> set allowed) (map fst body)"
  have empty: "?ks = [] \<longleftrightarrow> (\<forall>k \<in> set (map fst body). k \<notin> set allowed)"
    by (auto simp: filter_empty_conv)
  have rows: "leads (snd (PUT_leads_id u rid body d))
            = (if ?ks = [] then leads d
               else map (\<lambda>l. if sql_id_eq (lead_id l) rid then updated_lead body l else l) (leads d))"
    by (simp add: PUT_leads_id_def Let_def audit_def sql_update_leads_def update_row)
  show ?thesis
  proof (cases "?ks = []")
    case True
    then show ?thesis using empty by (simp add: PUT_leads_id_def Let_def)
  next
    case False
    then show ?thesis using empty rows by (auto simp: PUT_leads_id_def Let_def)
  qed
qed

theorem update_applies_allowed_fields_witness:
  "fst (PUT_leads_id admin_user ''1'' [(''name'', VStr ''Z''), (''hacked'', VNum 1)] db_AB) = Inr Success
   \<and> leads (snd (PUT_leads_id admin_user ''1'' [(''name'', VStr ''Z''), (''hacked'', VNum 1)] db_AB))
       = [lead_A\<lparr>name := Some ''Z''\<rparr>, lead_B]
   \<and> fst (PUT_leads_id admin_user ''1'' [(''hacked'', VNum 1)] db_AB)
       = Inl (HttpError 400 ''No updatable fields'')
   \<and> snd (PUT_leads_id admin_user ''1'' [(''hacked'', VNum 1)] db_AB) = db_AB"
proof -
  have b: "\<exists>k \<in> set (map fst [(''name'', VStr ''Z''), (''hacked'', VNum (1::int))]). k \<in> set allowed"
    by (simp add: allowed_def)
  have c: "\<forall>k \<in> set (map fst [(''hacked'', VNum (1::int))]). k \<notin> set allowed"
    by (simp add: allowed_def)
  have e: "map (\<lambda>l. if sql_id_eq (lead_id l) ''1''
                     then updated_lead [(''name'', VStr ''Z''), (''hacked'', VNum 1)] l else l) (leads db_AB)
         = [lead_A\<lparr>name := Some ''Z''\<rparr>, lead_B]"
    by code_simp
  show ?thesis
    using b c e
      update_applies_allowed_fields [of admin_user "''1''" "[(''name'', VStr ''Z''), (''hacked'', VNum 1)]" db_AB]
      update_applies_allowed_fields [of admin_user "''1''" "[(''hacked'', VNum 1)]" db_AB]
    by simp
qed

text \<open>
  C7 as stated fails: a body with the allowed field \<open>name\<close> and the unknown field
  \<open>hacked\<close> is not rejected; the name is updated and the unknown field dropped.
\<close>

theorem update_drops_unknown:
  "''hacked'' \<notin> set allowed
   \<and> fst (PUT_leads_id admin_user ''1'' [(''name'', VStr ''Z''), (''hacked'', VNum 1)] db_AB) = Inr Success
   \<and> leads (snd (PUT_leads_id admin_user ''1'' [(''name'', VStr ''Z''), (''hacked'', VNum 1)] db_AB))
       = [lead_A\<lparr>name := Some ''Z''\<rparr>, lead_B]"
  by code_simp


subsection \<open>Listing by creation date\<close>

text \<open>The server returns the rows in descending order of \<open>created_at\<close>.\<close>

lemma order_by_created_at_desc_sorted:
  "sorted_wrt (\<lambda>a b. created_at b \<le> created_at a) (order_by_created_at_desc rows)"
proof -
  have "sorted (map created_at (sort_key created_at (rev rows)))"
    by (rule sorted_sort_key)
  then have "sorted_wrt (\<lambda>a b. created_at a \<le> created_at b) (sort_key created_at (rev rows))"
    by (simp add: sorted_map)
  then show ?thesis
    by (simp add: order_by_created_at_desc_def sorted_wrt_rev)
qed

lemma parse_late: "parse_date_time ''2024-01-05 20:00:00'' = Some 1704484800000"
  by code_simp

lemma parse_jan5: "parse_ymd ''2024-01-05'' = Some 1704412800000"
  by code_simp

lemma Date_parse_late: "Date_parse tz ''2024-01-05 20:00:00'' = Some (1704484800000 - tz * 60000)"
  by (simp add: Date_parse_def parse_late)

lemma Date_parse_jan5: "Date_parse tz ''2024-01-05'' = Some 1704412800000"
  by (simp add: Date_parse_def parse_jan5)

text \<open>
  C8. A listing with a date range is to hold the leads created within the bounds, the
  bounds included. The upper bound of the dashboard is the date of a date input, which
  \<open>new Date\<close> reads as midnight UTC at the start of that day: with \<open>dateTo\<close> 2024-01-05
  a lead created at 20:00 on 2024-01-05 is left out, in every time zone of the browser.
  The lower bound has no input in the dashboard.
\<close>

theorem dateTo_excludes_its_day:
  assumes "- 720 \<le> tz" and "tz \<le> 840"
  shows "created_at lead_late = ''2024-01-05 20:00:00''
       \<and> filteredLeads tz [lead_late] [] [] [] [] [] ''2024-01-05'' = []"
proof -
  have c: "created_at lead_late = ''2024-01-05 20:00:00''"
    by (simp add: lead_late_def)
  have "\<not> date_le (Date_parse tz (created_at lead_late)) (Date_parse tz ''2024-01-05'')"
    using assms(2) by (simp add: c Date_parse_late Date_parse_jan5)
  then show ?thesis
    using c by (simp add: filteredLeads_def Let_def trim_def toLowerCase_def)
qed

theorem dateTo_excludes_its_day_witness:
  "(- 720 :: int) \<le> 330 \<and> (330 :: int) \<le> 840
   \<and> filteredLeads 330 [lead_late] [] [] [] [] [] ''2024-01-05'' = []"
  using dateTo_excludes_its_day [of 330] by simp

subsection \<open>Alerts\<close>

lemma today_jan5: "toISOString_date 1704448800000 = ''2024-01-05''"
  by code_simp

lemma todays_A: "todaysFollowups [lead_A] 1704448800000 = 1"
  by code_simp

lemma pending_A: "pending [lead_A] = 0"
  by code_simp

lemma follow_up_A: "next_follow_up lead_A = VStr ''2024-01-05''"
  by (simp add: lead_A_def)

lemma missed_A: "missed tz [lead_A] 1704448800000 = 1"
  by (simp add: missed_def follow_up_A Date_parse_jan5)

text \<open>
  C9. The missed count is to hold exactly the leads whose follow-up date is strictly
  before today. The count compares the follow-up date, read as midnight UTC, with the
  current instant, not with today's date: at 10:00 UTC on 2024-01-05 a lead whose
  follow-up is 2024-01-05 is counted both as due today and as missed, in every time zone
  of the browser.
\<close>

theorem alerts_today_missed:
  "toISOString_date 1704448800000 = ''2024-01-05''
   \<and> next_follow_up lead_A = VStr ''2024-01-05''
   \<and> todaysFollowups [lead_A] 1704448800000 = 1
   \<and> missed tz [lead_A] 1704448800000 = 1
   \<and> generateAlerts tz [lead_A] 1704448800000 = [FollowUpsForToday 1, MissedFollowUps 1]"
  by (simp add: today_jan5 follow_up_A todays_A missed_A pending_A generateAlerts_def)

theorem alerts_today_missed_witness:
  "missed 0 [lead_A] 1704448800000 = 1"
  using alerts_today_missed [of 0] by blast

subsection \<open>Registration\<close>

text \<open>
  C10, as the code has it. A registration with an email and a password, the email not
  yet in use, needs no credential and succeeds; the account and the claims of the token
  returned carry the role of the body, or \<open>telecaller\<close> when the body's role is absent or
  empty; and the middleware accepts the token as those claims. So anyone can register an
  account of role \<open>admin\<close>.
\<close>

theorem register_role:
  assumes "truthy_str (reg_email body)" and "truthy_str (reg_password body)"
    and "or_empty (reg_email body) \<notin> set (map acc_email (users d))"
  shows "\<exists>user. fst (POST_auth_register body d) = Inr (TokenUser (Jwt user) user)
           \<and> role user = (if truthy_str (reg_role body) then or_empty (reg_role body) else ''telecaller'')
           \<and> map acc_role (users (snd (POST_auth_register body d)))
               = map acc_role (users d) @ [role user]
           \<and> authMiddleware production (snd (POST_auth_register body d)) (Bearer (Some (Jwt user)))
               = Inr user"
  using assms by (simp add: POST_auth_register_def Let_def or_str_def authMiddleware_def audit_def)

theorem register_role_witness:
  "truthy_str (reg_email reg_admin) \<and> truthy_str (reg_password reg_admin)
   \<and> or_empty (reg_email reg_admin) \<notin> set (map acc_email (users db_AB))
   \<and> (\<exists>user. fst (POST_auth_register reg_admin db_AB) = Inr (TokenUser (Jwt user) user)
         \<and> role user = ''admin''
         \<and> map acc_role (users (snd (POST_auth_register reg_admin db_AB))) = [''admin'']
         \<and> authMiddleware True (snd (POST_auth_register reg_admin db_AB)) (Bearer (Some (Jwt user)))
             = Inr user
         \<and> requireRole [''admin'', ''manager''] user)"
proof -
  have h1: "truthy_str (reg_email reg_admin)" and h2: "truthy_str (reg_password reg_admin)"
    and h3: "or_empty (reg_email reg_admin) \<notin> set (map acc_email (users db_AB))"
    by (simp_all add: reg_admin_def truthy_str_def db_AB_def)
  from register_role [OF h1 h2 h3, of True] obtain user where
    u: "fst (POST_auth_register reg_admin db_AB) = Inr (TokenUser (Jwt user) user)"
       "role user = (if truthy_str (reg_role reg_admin) then or_empty (reg_role reg_admin)
                     else ''telecaller'')"
       "map acc_role (users (snd (POST_auth_register reg_admin db_AB)))
          = map acc_role (users db_AB) @ [role user]"
       "authMiddleware True (snd (POST_auth_register reg_admin db_AB)) (Bearer (Some (Jwt user)))
          = Inr user"
    by blast
  have r: "role user = ''admin''"
    using u(2) by (simp add: reg_admin_def truthy_str_def)
  show ?thesis
    using h1 h2 h3 u r by (auto simp: requireRole_def db_AB_def)
qed

text \<open>
  C10 as stated fails: a body whose role field is present and is the empty string gives
  an account of role \<open>telecaller\<close>, not of the role supplied.
\<close>

theorem register_empty_role:
  "reg_role reg_empty_role = Some []
   \<and> map acc_role (users (snd (POST_auth_register reg_empty_role db_AB))) = [''telecaller'']"
  by (simp add: reg_empty_role_def reg_admin_def POST_auth_register_def truthy_str_def or_str_def
      db_AB_def audit_def Let_def)

end
